theory Spec2Isabelle
  imports Main
begin

section \<open>The data of \<open>simple_fhe.py\<close>\<close>

text \<open>
  Python integers are unbounded: they are \<open>int\<close>. A ciphertext and a key are Python
  lists of integers: \<open>int list\<close>.

  The exceptions the methods can raise. Both \<open>raise ValueError(...)\<close> statements of the
  source are kept apart by their message; \<open>IndexError\<close> is what \<open>xs[-1]\<close> and \<open>xs[i]\<close>
  raise out of range, \<open>ZeroDivisionError\<close> what \<open>%\<close> and \<open>//\<close> raise on a zero divisor.
\<close>

datatype error = ValueError string | IndexError | ZeroDivisionError

text \<open>The attributes \<open>__init__\<close> stores on \<open>self\<close>.\<close>

record engine =
  key_size :: int
  q :: int
  scale :: int
  seed :: int
  secret_key :: "int list"
  public_key :: "int list"

text \<open>
  A line written by \<open>print(f"label{value}")\<close>: the label and the value printed after it.
\<close>

datatype printed = PrintList string "int list" | PrintInt string int

text \<open>
  The module \<open>random\<close> belongs to the Python standard library, not to the repository. It is
  a parameter of the model: \<open>random_seed\<close> is the hidden generator state that
  \<open>random.seed(s)\<close> installs, \<open>random_randint a b\<close> is one call \<open>random.randint(a, b)\<close>,
  which returns a number and the next hidden state.
\<close>

record 'g random_module =
  random_seed :: "int \<Rightarrow> 'g"
  random_randint :: "int \<Rightarrow> int \<Rightarrow> 'g \<Rightarrow> int \<times> 'g"

text \<open>
  What a method can read and write: the object \<open>self\<close>, the process-wide hidden state of
  \<open>random\<close>, and the standard output.
\<close>

record 'g state =
  self :: engine
  rng :: 'g
  stdout :: "printed list"

definition py_print :: "printed \<Rightarrow> 'g state \<Rightarrow> 'g state" where
  "py_print line st = st\<lparr>stdout := stdout st @ [line]\<rparr>"

section \<open>Key generation and construction\<close>

text \<open>\<open>range(n)\<close> for an integer \<open>n\<close>: empty when \<open>n \<le> 0\<close>.\<close>

definition py_range :: "int \<Rightarrow> nat list" where
  "py_range n = [0..<nat n]"

text \<open>
  \<open>[random.randint(0, 1) for _ in range(n)]\<close>: one draw per iteration, in order, each from
  the state the previous draw left.
\<close>

fun randint_list :: "'g random_module \<Rightarrow> nat list \<Rightarrow> 'g \<Rightarrow> int list \<times> 'g" where
  "randint_list R [] g = ([], g)"
| "randint_list R (i # rest) g =
     (case random_randint R 0 1 g of
        (x, g1) \<Rightarrow> (case randint_list R rest g1 of (xs, g2) \<Rightarrow> (x # xs, g2)))"

definition generate_secret_key :: "'g random_module \<Rightarrow> 'g state \<Rightarrow> int list \<times> 'g state" where
  "generate_secret_key R st =
     (case randint_list R (py_range (key_size (self st))) (rng st) of
        (key, g) \<Rightarrow> (key, py_print (PrintList ''Secret key: '' key) (st\<lparr>rng := g\<rparr>)))"

definition generate_public_key :: "'g random_module \<Rightarrow> 'g state \<Rightarrow> int list \<times> 'g state" where
  "generate_public_key R st =
     (case randint_list R (py_range (key_size (self st))) (rng st) of
        (key, g) \<Rightarrow> (key, py_print (PrintList ''Public key: '' key) (st\<lparr>rng := g\<rparr>)))"

text \<open>
  \<open>SimpleFHE(key_size, seed)\<close>, run in a process whose generator state is \<open>g\<close> and whose
  output so far is \<open>out\<close>. While \<open>__init__\<close> runs, the attributes not yet assigned are
  absent in Python; the record holds \<open>[]\<close> there, and the two key generators read
  \<open>self.key_size\<close> only.
\<close>

definition SimpleFHE_init ::
  "'g random_module \<Rightarrow> int \<Rightarrow> int \<Rightarrow> 'g \<Rightarrow> printed list \<Rightarrow> 'g state" where
  "SimpleFHE_init R ks sd g out =
     (let self0 = \<lparr>key_size = ks, q = 8, scale = 8 div 2, seed = sd,
                   secret_key = [], public_key = []\<rparr>;
          st0 = \<lparr>self = self0, rng = random_seed R sd, stdout = out\<rparr>
      in case generate_secret_key R st0 of
           (sk, st1) \<Rightarrow>
             (let st2 = st1\<lparr>self := (self st1)\<lparr>secret_key := sk\<rparr>\<rparr>
              in case generate_public_key R st2 of
                   (pk, st3) \<Rightarrow> st3\<lparr>self := (self st3)\<lparr>public_key := pk\<rparr>\<rparr>))"

section \<open>The four operations\<close>

text \<open>
  The loop of \<open>encrypt\<close> over \<open>range(self.key_size)\<close>, appending to \<open>ciphertext\<close>.
\<close>

fun encrypt_loop :: "engine \<Rightarrow> int \<Rightarrow> nat list \<Rightarrow> int list \<Rightarrow> error + int list" where
  "encrypt_loop e noise [] ciphertext = Inr ciphertext"
| "encrypt_loop e noise (i # rest) ciphertext =
     (if length (public_key e) \<le> i then Inl IndexError
      else if q e = 0 then Inl ZeroDivisionError
      else encrypt_loop e noise rest (ciphertext @ [(public_key e ! i + noise) mod q e]))"

definition encrypt :: "'g state \<Rightarrow> int \<Rightarrow> (error + int list) \<times> 'g state" where
  "encrypt st message =
     (if message \<notin> set [0, 1]
      then (Inl (ValueError ''Message must be a single bit (0 or 1)''), st)
      else
        let noise = 0 in
        case encrypt_loop (self st) noise (py_range (key_size (self st))) [] of
          Inl err \<Rightarrow> (Inl err, st)
        | Inr ciphertext \<Rightarrow>
            (let st1 = py_print (PrintList ''Ciphertext: '' ciphertext) st
             in if q (self st) = 0 then (Inl ZeroDivisionError, st1)
                else
                  let ciphertext2 =
                        ciphertext @ [(message * scale (self st) + noise) mod q (self st)];
                      st2 = py_print (PrintList ''Ciphertext with message: '' ciphertext2) st1
                  in (Inr ciphertext2, st2)))"

text \<open>\<open>sum(a * b for a, b in zip(xs, ys))\<close>: \<open>zip\<close> stops at the shorter list.\<close>

definition dot_product :: "int list \<Rightarrow> int list \<Rightarrow> int" where
  "dot_product xs ys = sum_list (map (\<lambda>(a, b). a * b) (zip xs ys))"

definition decrypt :: "'g state \<Rightarrow> int list \<Rightarrow> (error + int) \<times> 'g state" where
  "decrypt st ciphertext =
     (if ciphertext = [] then (Inl IndexError, st)
      else
        let message_part = last ciphertext;
            ciphertext1 = butlast ciphertext;
            dot = dot_product ciphertext1 (secret_key (self st));
            st1 = py_print (PrintList ''Ciphertext: '' ciphertext1) st;
            st2 = py_print (PrintList ''Secret key: '' (secret_key (self st))) st1;
            st3 = py_print (PrintInt ''Dot product: '' dot) st2
        in if q (self st) = 0 then (Inl ZeroDivisionError, st3)
           else if scale (self st) = 0 then (Inl ZeroDivisionError, st3)
           else (Inr (((message_part - dot) mod q (self st)) div scale (self st)), st3))"

text \<open>The loop of \<open>add\<close> over \<open>zip(ciphertext1[:-1], ciphertext2[:-1])\<close>.\<close>

fun add_loop :: "engine \<Rightarrow> (int \<times> int) list \<Rightarrow> int list \<Rightarrow> error + int list" where
  "add_loop e [] result = Inr result"
| "add_loop e ((a, b) # rest) result =
     (if q e = 0 then Inl ZeroDivisionError
      else add_loop e rest (result @ [(a + b) mod q e]))"

definition add :: "'g state \<Rightarrow> int list \<Rightarrow> int list \<Rightarrow> (error + int list) \<times> 'g state" where
  "add st ciphertext1 ciphertext2 =
     (if length ciphertext1 \<noteq> length ciphertext2
      then (Inl (ValueError ''Ciphertexts must be the same length''), st)
      else
        case add_loop (self st) (zip (butlast ciphertext1) (butlast ciphertext2)) [] of
          Inl err \<Rightarrow> (Inl err, st)
        | Inr result \<Rightarrow>
            if ciphertext1 = [] then (Inl IndexError, st)
            else if ciphertext2 = [] then (Inl IndexError, st)
            else
              let msg1 = last ciphertext1;
                  msg2 = last ciphertext2
              in if q (self st) = 0 then (Inl ZeroDivisionError, st)
                 else (Inr (result @ [(msg1 + msg2) mod q (self st)]), st))"

text \<open>The loop of \<open>multiply\<close> over the same pairs.\<close>

fun multiply_loop :: "engine \<Rightarrow> (int \<times> int) list \<Rightarrow> int list \<Rightarrow> error + int list" where
  "multiply_loop e [] result = Inr result"
| "multiply_loop e ((a, b) # rest) result =
     (if q e = 0 then Inl ZeroDivisionError
      else multiply_loop e rest (result @ [(a * b) mod q e]))"

definition multiply :: "'g state \<Rightarrow> int list \<Rightarrow> int list \<Rightarrow> (error + int list) \<times> 'g state" where
  "multiply st ciphertext1 ciphertext2 =
     (if length ciphertext1 \<noteq> length ciphertext2
      then (Inl (ValueError ''Ciphertexts must be the same length''), st)
      else
        case multiply_loop (self st) (zip (butlast ciphertext1) (butlast ciphertext2)) [] of
          Inl err \<Rightarrow> (Inl err, st)
        | Inr result \<Rightarrow>
            if ciphertext1 = [] then (Inl IndexError, st)
            else if ciphertext2 = [] then (Inl IndexError, st)
            else
              let msg1 = last ciphertext1;
                  msg2 = last ciphertext2
              in if scale (self st) = 0 then (Inl ZeroDivisionError, st)
                 else
                   let b1 = msg1 div scale (self st);
                       b2 = msg2 div scale (self st)
                   in if q (self st) = 0 then (Inl ZeroDivisionError, st)
                      else (Inr (result @ [(b1 * b2 * scale (self st)) mod q (self st)]), st))"

section \<open>A concrete generator\<close>

text \<open>
  A generator that replays a recorded stream: its state is the list of numbers still to
  come, \<open>random_seed\<close> looks the stream of a seed up, and each draw takes the head (an
  exhausted stream answers the lower bound).
\<close>

definition replay :: "(int \<Rightarrow> int list) \<Rightarrow> (int list) random_module" where
  "replay draws =
     \<lparr>random_seed = draws,
      random_randint = (\<lambda>a b g. case g of [] \<Rightarrow> (a, []) | x # rest \<Rightarrow> (x, rest))\<rparr>"

text \<open>
  The first sixteen numbers that \<open>random.randint(0, 1)\<close> returns in CPython 3 after
  \<open>random.seed(0)\<close> and after \<open>random.seed(42)\<close> (the seed of the demonstration).
\<close>

definition cpython_draws :: "int \<Rightarrow> int list" where
  "cpython_draws s =
     (if s = 0 then [1, 1, 0, 1, 1, 1, 1, 1, 1, 0, 0, 1, 0, 0, 1, 0]
      else if s = 42 then [0, 0, 1, 0, 0, 0, 0, 0, 1, 0, 0, 0, 0, 0, 0, 0]
      else [])"

section \<open>Decryption as the specification words it\<close>

text \<open>
  The specification's decryption, kept apart from \<open>decrypt\<close> above to be compared with
  it: the message part is the last entry, the mask is the first \<open>key_size\<close> entries before
  it, \<open>dot\<close> is the integer sum of \<open>mask[i] * secret_key[i]\<close> with no reduction inside, and
  the result is the floor quotient by \<open>scale\<close> of the residue modulo \<open>q\<close>. The residue is
  the specification's \<open>mod_floor\<close>: the truncating remainder that many languages
  compute (it has the sign of the dividend), moved into \<open>[0, q)\<close> when it is negative.
\<close>

definition trunc_rem :: "int \<Rightarrow> int \<Rightarrow> int" where
  "trunc_rem x m = x - m * (sgn x * sgn m * (\<bar>x\<bar> div \<bar>m\<bar>))"

definition mod_floor :: "int \<Rightarrow> int \<Rightarrow> int" where
  "mod_floor x m = (let r = trunc_rem x m in if r < 0 then r + m else r)"

definition decrypt_spec :: "engine \<Rightarrow> int list \<Rightarrow> int" where
  "decrypt_spec e ciphertext =
     (let message_part = last ciphertext;
          mask = take (nat (key_size e)) (butlast ciphertext);
          dot = sum_list (map (\<lambda>i. mask ! i * secret_key e ! i) [0..<length mask])
      in mod_floor (message_part - dot) (q e) div scale e)"

section \<open>The compositions the laws are stated on\<close>

text \<open>
  \<open>decrypt(encrypt(b))\<close>, \<open>decrypt(add(encrypt(b1), encrypt(b2)))\<close> and
  \<open>decrypt(multiply(encrypt(b1), encrypt(b2)))\<close> on one engine, as the demonstration
  routine calls them: each call runs in the state the previous one left, and the first
  exception ends the run.
\<close>

definition decrypt_encrypt :: "'g state \<Rightarrow> int \<Rightarrow> error + int" where
  "decrypt_encrypt st b =
     (case encrypt st b of
        (Inl err, st1) \<Rightarrow> Inl err
      | (Inr c, st1) \<Rightarrow> fst (decrypt st1 c))"

definition decrypt_add_encrypt :: "'g state \<Rightarrow> int \<Rightarrow> int \<Rightarrow> error + int" where
  "decrypt_add_encrypt st b1 b2 =
     (case encrypt st b1 of
        (Inl err, st1) \<Rightarrow> Inl err
      | (Inr c1, st1) \<Rightarrow>
          (case encrypt st1 b2 of
             (Inl err, st2) \<Rightarrow> Inl err
           | (Inr c2, st2) \<Rightarrow>
               (case add st2 c1 c2 of
                  (Inl err, st3) \<Rightarrow> Inl err
                | (Inr c, st3) \<Rightarrow> fst (decrypt st3 c))))"

definition decrypt_multiply_encrypt :: "'g state \<Rightarrow> int \<Rightarrow> int \<Rightarrow> error + int" where
  "decrypt_multiply_encrypt st b1 b2 =
     (case encrypt st b1 of
        (Inl err, st1) \<Rightarrow> Inl err
      | (Inr c1, st1) \<Rightarrow>
          (case encrypt st1 b2 of
             (Inl err, st2) \<Rightarrow> Inl err
           | (Inr c2, st2) \<Rightarrow>
               (case multiply st2 c1 c2 of
                  (Inl err, st3) \<Rightarrow> Inl err
                | (Inr c, st3) \<Rightarrow> fst (decrypt st3 c))))"

section \<open>Facts about construction\<close>

lemma length_randint_list: "length (fst (randint_list R is g)) = length is"
proof (induction "is" arbitrary: g)
  case Nil
  show ?case by simp
next
  case (Cons i rest)
  obtain x g1 where d: "random_randint R 0 1 g = (x, g1)" by (cases "random_randint R 0 1 g")
  obtain xs g2 where r: "randint_list R rest g1 = (xs, g2)" by (cases "randint_list R rest g1")
  have "length xs = length rest" using Cons.IH [of g1] r by simp
  then show ?case by (simp add: d r)
qed

lemma self_SimpleFHE_init:
  "self (SimpleFHE_init R ks sd g out) =
     \<lparr>key_size = ks, q = 8, scale = 4, seed = sd,
      secret_key = fst (randint_list R (py_range ks) (random_seed R sd)),
      public_key = fst (randint_list R (py_range ks)
                      (snd (randint_list R (py_range ks) (random_seed R sd))))\<rparr>"
  by (simp add: SimpleFHE_init_def generate_secret_key_def generate_public_key_def
      py_print_def Let_def split: prod.splits)

lemma constructed_fields:
  assumes "self st = self (SimpleFHE_init R ks sd g out)"
  shows "q (self st) = 8" and "scale (self st) = 4" and "key_size (self st) = ks"
    and "length (secret_key (self st)) = nat ks" and "length (public_key (self st)) = nat ks"
  using assms by (simp_all add: self_SimpleFHE_init length_randint_list py_range_def)

section \<open>The loops in closed form\<close>

lemma encrypt_loop_eq:
  "q e \<noteq> 0 \<Longrightarrow> \<forall>i\<in>set is. i < length (public_key e) \<Longrightarrow>
   encrypt_loop e noise is ct = Inr (ct @ map (\<lambda>i. (public_key e ! i + noise) mod q e) is)"
  by (induction "is" arbitrary: ct) auto

lemma add_loop_eq:
  "q e \<noteq> 0 \<Longrightarrow> add_loop e ps res = Inr (res @ map (\<lambda>(a, b). (a + b) mod q e) ps)"
  by (induction ps arbitrary: res) auto

lemma multiply_loop_eq:
  "q e \<noteq> 0 \<Longrightarrow> multiply_loop e ps res = Inr (res @ map (\<lambda>(a, b). (a * b) mod q e) ps)"
  by (induction ps arbitrary: res) auto

section \<open>The operations on a constructed engine\<close>

lemma encrypt_constructed:
  assumes c: "self st = self (SimpleFHE_init R ks sd g out)" and b: "b \<in> {0, 1}"
  shows "fst (encrypt st b) =
           Inr (map (\<lambda>x. x mod 8) (public_key (self st)) @ [(b * 4) mod 8])"
proof -
  note f = constructed_fields [OF c]
  have "encrypt_loop (self st) 0 (py_range ks) [] =
        Inr ([] @ map (\<lambda>i. (public_key (self st) ! i + 0) mod q (self st)) (py_range ks))"
    by (rule encrypt_loop_eq) (simp_all add: f py_range_def)
  moreover have "map (\<lambda>i. (public_key (self st) ! i + 0) mod q (self st)) (py_range ks)
      = map (\<lambda>x. x mod 8) (public_key (self st))"
    using f(5) by (simp add: f(1) py_range_def list_eq_iff_nth_eq)
  ultimately show ?thesis using b
    by (auto simp add: encrypt_def f Let_def)
qed

lemma encrypt_invalid: "m \<notin> {0, 1} \<Longrightarrow>
  encrypt st m = (Inl (ValueError ''Message must be a single bit (0 or 1)''), st)"
  by (simp add: encrypt_def)

lemma encrypt_keeps: "self (snd (encrypt st m)) = self st \<and> rng (snd (encrypt st m)) = rng st"
  by (simp add: encrypt_def py_print_def Let_def split: sum.splits)

lemma decrypt_keeps: "self (snd (decrypt st cs)) = self st \<and> rng (snd (decrypt st cs)) = rng st"
  by (simp add: decrypt_def py_print_def Let_def)

lemma decrypt_constructed:
  assumes c: "self st = self (SimpleFHE_init R ks sd g out)"
  shows "fst (decrypt st cs) =
    (if cs = [] then Inl IndexError
     else Inr (((last cs - dot_product (butlast cs) (secret_key (self st))) mod 8) div 4))"
  by (simp add: decrypt_def constructed_fields [OF c] Let_def)

lemma add_constructed:
  assumes c: "self st = self (SimpleFHE_init R ks sd g out)"
  shows "add st c1 c2 =
    (if length c1 \<noteq> length c2 then (Inl (ValueError ''Ciphertexts must be the same length''), st)
     else if c1 = [] then (Inl IndexError, st)
     else (Inr (map (\<lambda>(a, b). (a + b) mod 8) (zip (butlast c1) (butlast c2))
                @ [(last c1 + last c2) mod 8]), st))"
proof -
  note f = constructed_fields [OF c]
  have "add_loop (self st) (zip (butlast c1) (butlast c2)) [] =
      Inr ([] @ map (\<lambda>(a, b). (a + b) mod q (self st)) (zip (butlast c1) (butlast c2)))"
    by (rule add_loop_eq) (simp add: f)
  then show ?thesis by (auto simp add: add_def f Let_def)
qed

lemma multiply_constructed:
  assumes c: "self st = self (SimpleFHE_init R ks sd g out)"
  shows "multiply st c1 c2 =
    (if length c1 \<noteq> length c2 then (Inl (ValueError ''Ciphertexts must be the same length''), st)
     else if c1 = [] then (Inl IndexError, st)
     else (Inr (map (\<lambda>(a, b). (a * b) mod 8) (zip (butlast c1) (butlast c2))
                @ [(last c1 div 4 * (last c2 div 4) * 4) mod 8]), st))"
proof -
  note f = constructed_fields [OF c]
  have "multiply_loop (self st) (zip (butlast c1) (butlast c2)) [] =
      Inr ([] @ map (\<lambda>(a, b). (a * b) mod q (self st)) (zip (butlast c1) (butlast c2)))"
    by (rule multiply_loop_eq) (simp add: f)
  then show ?thesis by (auto simp add: multiply_def f Let_def)
qed

lemma dot_product_index:
  "dot_product xs ys = sum_list (map (\<lambda>i. xs ! i * ys ! i) [0..<min (length xs) (length ys)])"
proof -
  have "zip xs ys = map (\<lambda>i. (xs ! i, ys ! i)) [0..<min (length xs) (length ys)]"
    by (simp add: list_eq_iff_nth_eq)
  then show ?thesis by (simp add: dot_product_def comp_def)
qed

text \<open>On the modulus 8, Python's \<open>%\<close> is the normalised residue, also below zero.\<close>

lemma mod_floor_8: "mod_floor x 8 = x mod 8"
proof -
  consider "x < 0" | "x = 0" | "0 < x" by linarith
  then show ?thesis
  proof cases
    case 1
    then show ?thesis by (simp add: mod_floor_def trunc_rem_def Let_def) presburger
  next
    case 2
    then show ?thesis by (simp add: mod_floor_def trunc_rem_def)
  next
    case 3
    then show ?thesis by (simp add: mod_floor_def trunc_rem_def Let_def) presburger
  qed
qed

lemma mod_floor_8_range: "0 \<le> mod_floor x 8 \<and> mod_floor x 8 < 8"
  by (simp add: mod_floor_8)

lemma decrypt_spec_constructed:
  assumes c: "self st = self (SimpleFHE_init R ks sd g out)"
  shows "decrypt_spec (self st) cs =
     ((last cs - dot_product (butlast cs) (secret_key (self st))) mod 8) div 4"
proof -
  note f = constructed_fields [OF c]
  let ?mask = "take (nat ks) (butlast cs)"
  have len: "length ?mask = min (length (butlast cs)) (length (secret_key (self st)))"
    by (simp add: f min.commute)
  have "sum_list (map (\<lambda>i. ?mask ! i * secret_key (self st) ! i) [0..<length ?mask])
      = sum_list (map (\<lambda>i. butlast cs ! i * secret_key (self st) ! i) [0..<length ?mask])"
    by (rule arg_cong [where f = sum_list]) (simp add: map_eq_conv)
  also have "\<dots> = dot_product (butlast cs) (secret_key (self st))"
    unfolding dot_product_index len ..
  finally show ?thesis
    by (simp add: decrypt_spec_def f Let_def mod_floor_8)
qed

section \<open>The three laws on a constructed engine, in closed form\<close>

lemma decrypt_encrypt_constructed:
  assumes c: "self st = self (SimpleFHE_init R ks sd g out)" and b: "b \<in> {0, 1}"
  shows "decrypt_encrypt st b =
    Inr (((b * 4 - dot_product (map (\<lambda>x. x mod 8) (public_key (self st)))
                     (secret_key (self st))) mod 8) div 4)"
proof -
  obtain r st1 where e: "encrypt st b = (r, st1)" by (cases "encrypt st b")
  have r: "r = Inr (map (\<lambda>x. x mod 8) (public_key (self st)) @ [(b * 4) mod 8])"
    using encrypt_constructed [OF c b] e by simp
  have s: "self st1 = self st" using encrypt_keeps [of st b] e by simp
  have c1: "self st1 = self (SimpleFHE_init R ks sd g out)" using s c by simp
  have "(b * 4) mod 8 = b * 4" using b by auto
  then show ?thesis
    by (simp add: decrypt_encrypt_def e r decrypt_constructed [OF c1] s)
qed

lemma decrypt_encrypt_correct_iff:
  assumes c: "self st = self (SimpleFHE_init R ks sd g out)" and b: "b \<in> {0, 1}"
  shows "(decrypt_encrypt st b = Inr b) =
    (dot_product (map (\<lambda>x. x mod 8) (public_key (self st))) (secret_key (self st)) mod 8
       \<in> {0, 5, 6, 7})"
proof -
  define d where "d = dot_product (map (\<lambda>x. x mod 8) (public_key (self st))) (secret_key (self st))"
  have "(((b * 4 - d) mod 8) div 4 = b) = (d mod 8 \<in> {0, 5, 6, 7})"
    using b by (elim insertE emptyE; simp; presburger)
  then show ?thesis
    by (simp add: decrypt_encrypt_constructed [OF c b] d_def)
qed

lemma decrypt_add_encrypt_constructed:
  assumes c: "self st = self (SimpleFHE_init R ks sd g out)"
    and b1: "b1 \<in> {0, 1}" and b2: "b2 \<in> {0, 1}"
  shows "decrypt_add_encrypt st b1 b2 =
    Inr ((((b1 * 4 + b2 * 4) mod 8
           - dot_product (map (\<lambda>x. (x mod 8 + x mod 8) mod 8) (public_key (self st)))
                     (secret_key (self st))) mod 8) div 4)"
proof -
  obtain r1 st1 where e1: "encrypt st b1 = (r1, st1)" by (cases "encrypt st b1")
  have s1: "self st1 = self st" using encrypt_keeps [of st b1] e1 by simp
  have c1: "self st1 = self (SimpleFHE_init R ks sd g out)" using s1 c by simp
  obtain r2 st2 where e2: "encrypt st1 b2 = (r2, st2)" by (cases "encrypt st1 b2")
  have s2: "self st2 = self st" using encrypt_keeps [of st1 b2] e2 s1 by simp
  have c2: "self st2 = self (SimpleFHE_init R ks sd g out)" using s2 c by simp
  have r1: "r1 = Inr (map (\<lambda>x. x mod 8) (public_key (self st)) @ [(b1 * 4) mod 8])"
    using encrypt_constructed [OF c b1] e1 by simp
  have r2: "r2 = Inr (map (\<lambda>x. x mod 8) (public_key (self st)) @ [(b2 * 4) mod 8])"
    using encrypt_constructed [OF c1 b2] e2 s1 by simp
  have z: "map (\<lambda>(a, b). (a + b) mod 8)
             (zip (map (\<lambda>x. x mod 8) (public_key (self st)))
                  (map (\<lambda>x. x mod 8) (public_key (self st))))
         = map (\<lambda>x. (x mod 8 + x mod 8) mod 8) (public_key (self st))"
    by (simp add: zip_same_conv_map)
  show ?thesis
    by (simp add: decrypt_add_encrypt_def e1 e2 r1 r2 add_constructed [OF c2]
        decrypt_constructed [OF c2] s2 z mod_simps del: mod_mod_trivial)
qed

lemma decrypt_multiply_encrypt_constructed:
  assumes c: "self st = self (SimpleFHE_init R ks sd g out)"
    and b1: "b1 \<in> {0, 1}" and b2: "b2 \<in> {0, 1}"
  shows "decrypt_multiply_encrypt st b1 b2 =
    Inr (((b1 * b2 * 4
           - dot_product (map (\<lambda>x. (x mod 8 * (x mod 8)) mod 8) (public_key (self st)))
                     (secret_key (self st))) mod 8) div 4)"
proof -
  obtain r1 st1 where e1: "encrypt st b1 = (r1, st1)" by (cases "encrypt st b1")
  have s1: "self st1 = self st" using encrypt_keeps [of st b1] e1 by simp
  have c1: "self st1 = self (SimpleFHE_init R ks sd g out)" using s1 c by simp
  obtain r2 st2 where e2: "encrypt st1 b2 = (r2, st2)" by (cases "encrypt st1 b2")
  have s2: "self st2 = self st" using encrypt_keeps [of st1 b2] e2 s1 by simp
  have c2: "self st2 = self (SimpleFHE_init R ks sd g out)" using s2 c by simp
  have r1: "r1 = Inr (map (\<lambda>x. x mod 8) (public_key (self st)) @ [(b1 * 4) mod 8])"
    using encrypt_constructed [OF c b1] e1 by simp
  have r2: "r2 = Inr (map (\<lambda>x. x mod 8) (public_key (self st)) @ [(b2 * 4) mod 8])"
    using encrypt_constructed [OF c1 b2] e2 s1 by simp
  have z: "map (\<lambda>(a, b). (a * b) mod 8)
             (zip (map (\<lambda>x. x mod 8) (public_key (self st)))
                  (map (\<lambda>x. x mod 8) (public_key (self st))))
         = map (\<lambda>x. (x mod 8 * (x mod 8)) mod 8) (public_key (self st))"
    by (simp add: zip_same_conv_map)
  have m: "((b1 * 4) mod 8 div 4 * ((b2 * 4) mod 8 div 4) * 4) mod 8 = b1 * b2 * 4"
    using b1 b2 by auto
  show ?thesis
    by (simp add: decrypt_multiply_encrypt_def e1 e2 r1 r2 multiply_constructed [OF c2]
        decrypt_constructed [OF c2] s2 z m del: mod_mod_trivial)
qed

section \<open>The claims\<close>

text \<open>
  Below, \<open>self st = self (SimpleFHE_init R ks sd g out)\<close> says that the engine of the state
  \<open>st\<close> is one that \<open>SimpleFHE(key_size=ks, seed=sd)\<close> constructed, whatever was printed or
  drawn since.
\<close>

subsection \<open>Round trip and the two homomorphic laws\<close>

text \<open>
  C1. Claim: for every bit \<open>b\<close> and every constructed engine, decrypting \<open>encrypt(b)\<close> on
  the same engine returns \<open>b\<close>. The code breaks it: \<open>encrypt\<close> copies the public key into
  the mask and never adds the mask's product with the secret key to the message entry,
  while \<open>decrypt\<close> subtracts that product. \<open>SimpleFHE(key_size=1, seed=0)\<close> has the secret
  key \<open>[1]\<close> and the public key \<open>[1]\<close>; there \<open>encrypt(0)\<close> is \<open>[1, 0]\<close> and decrypting it
  returns 1, not 0.
\<close>

theorem decrypt_encrypt_seed0:
  "self (SimpleFHE_init (replay cpython_draws) 1 0 [] []) =
     \<lparr>key_size = 1, q = 8, scale = 4, seed = 0, secret_key = [1], public_key = [1]\<rparr>
   \<and> fst (encrypt (SimpleFHE_init (replay cpython_draws) 1 0 [] []) 0) = Inr [1, 0]
   \<and> decrypt_encrypt (SimpleFHE_init (replay cpython_draws) 1 0 [] []) 0 = Inr 1"
  by code_simp

text \<open>
  C2. Claim: for all bits \<open>b1\<close>, \<open>b2\<close> and every engine,
  \<open>decrypt(add(encrypt(b1), encrypt(b2)))\<close> is \<open>(b1 + b2) mod 2\<close>. On the engine
  \<open>SimpleFHE(key_size=1, seed=0)\<close> the sum of two encryptions of 0 is \<open>[2, 0]\<close> and
  decrypts to 1, where \<open>(0 + 0) mod 2\<close> is 0.
\<close>

theorem decrypt_add_encrypt_seed0:
  "fst (add (SimpleFHE_init (replay cpython_draws) 1 0 [] []) [1, 0] [1, 0]) = Inr [2, 0]
   \<and> decrypt_add_encrypt (SimpleFHE_init (replay cpython_draws) 1 0 [] []) 0 0 = Inr 1
   \<and> (0 + 0) mod 2 = (0 :: int)"
  by code_simp

text \<open>
  C3. Claim: for all bits \<open>b1\<close>, \<open>b2\<close> and every engine,
  \<open>decrypt(multiply(encrypt(b1), encrypt(b2)))\<close> is \<open>b1 * b2\<close>. On the engine
  \<open>SimpleFHE(key_size=1, seed=0)\<close> the product of two encryptions of 0 is \<open>[1, 0]\<close> and
  decrypts to 1, where \<open>0 * 0\<close> is 0.
\<close>

theorem decrypt_multiply_encrypt_seed0:
  "fst (multiply (SimpleFHE_init (replay cpython_draws) 1 0 [] []) [1, 0] [1, 0]) = Inr [1, 0]
   \<and> decrypt_multiply_encrypt (SimpleFHE_init (replay cpython_draws) 1 0 [] []) 0 0 = Inr 1
   \<and> 0 * 0 = (0 :: int)"
  by code_simp

text \<open>
  The demonstration's own engine, \<open>SimpleFHE(key_size=8)\<close> with the default seed 42, has
  keys whose product is 0, and its four test vectors give what the routine prints as
  expected.
\<close>

lemma demonstration_seed42:
  "list_all (\<lambda>(b1, b2).
      decrypt_add_encrypt (SimpleFHE_init (replay cpython_draws) 8 42 [] []) b1 b2
        = Inr ((b1 + b2) mod 2)
    \<and> decrypt_multiply_encrypt (SimpleFHE_init (replay cpython_draws) 8 42 [] []) b1 b2
        = Inr (b1 * b2))
    [(0, 0), (0, 1), (1, 0), (1, 1)]"
  by code_simp

subsection \<open>Decryption\<close>

text \<open>
  C4. Claim: on a sequence whose length is not \<open>key_size + 1\<close>, \<open>decrypt\<close> fails with a
  length-mismatch error. The code makes no length check in \<open>decrypt\<close>. Amended: on a
  sequence whose length is not \<open>key_size + 1\<close>, \<open>decrypt\<close> raises \<open>IndexError\<close> when the
  sequence is empty and otherwise returns
  \<open>((last - dot) mod 8) // 4\<close>, where \<open>dot\<close> pairs the entries before the last with the
  secret key as far as the shorter of the two reaches.
\<close>

theorem decrypt_any_length:
  assumes "self st = self (SimpleFHE_init R ks sd g out)" and "int (length cs) \<noteq> ks + 1"
  shows "fst (decrypt st cs) =
    (if cs = [] then Inl IndexError
     else Inr (((last cs - dot_product (butlast cs) (secret_key (self st))) mod 8) div 4))"
  by (rule decrypt_constructed [OF assms(1)])

theorem decrypt_any_length_witness:
  "int (length [0, 1, 1, 4 :: int]) \<noteq> 8 + 1 \<and>
   fst (decrypt (SimpleFHE_init (replay cpython_draws) 8 42 [] []) [0, 1, 1, 4]) = Inr 0"
proof -
  let ?st = "SimpleFHE_init (replay cpython_draws) 8 42 [] []"
  have len: "int (length [0, 1, 1, 4 :: int]) \<noteq> 8 + 1" by simp
  have sk: "secret_key (self ?st) = [0, 0, 1, 0, 0, 0, 0, 0]" by code_simp
  have "fst (decrypt ?st [0, 1, 1, 4]) =
     (if [0, 1, 1, 4 :: int] = [] then Inl IndexError
      else Inr (((last [0, 1, 1, 4]
                  - dot_product (butlast [0, 1, 1, 4]) (secret_key (self ?st))) mod 8) div 4))"
    by (rule decrypt_any_length [OF refl len])
  then show ?thesis by (simp add: sk dot_product_def)
qed

text \<open>
  The one-entry sequence \<open>[4]\<close> on the engine of key size 8: no error, the value 1.
\<close>

theorem decrypt_short_counterexample:
  "int (length [4 :: int]) \<noteq> key_size (self (SimpleFHE_init (replay cpython_draws) 8 42 [] [])) + 1
   \<and> fst (decrypt (SimpleFHE_init (replay cpython_draws) 8 42 [] []) [4]) = Inr 1"
  by code_simp

text \<open>
  C5. On every non-empty sequence of integers, of any length, \<open>decrypt\<close> returns without
  an error, and the value is 0 or 1.
\<close>

theorem decrypt_returns_bit:
  assumes "self st = self (SimpleFHE_init R ks sd g out)" and "cs \<noteq> []"
  shows "\<exists>v. fst (decrypt st cs) = Inr v \<and> v \<in> {0, 1}"
proof -
  let ?r = "(last cs - dot_product (butlast cs) (secret_key (self st))) mod 8"
  have "0 \<le> ?r" and "?r < 8" by simp_all
  then have "?r div 4 = 0 \<or> ?r div 4 = 1" by presburger
  then show ?thesis using assms(2) by (auto simp add: decrypt_constructed [OF assms(1)])
qed

theorem decrypt_returns_bit_witness:
  "[0, 1, 1, 4 :: int] \<noteq> [] \<and>
   (\<exists>v. fst (decrypt (SimpleFHE_init (replay cpython_draws) 8 42 [] []) [0, 1, 1, 4]) = Inr v
       \<and> v \<in> {0, 1})"
  using decrypt_returns_bit [of "SimpleFHE_init (replay cpython_draws) 8 42 [] []"
      "replay cpython_draws" 8 42 "[]" "[]" "[0, 1, 1, 4]"]
  by simp

text \<open>
  C10. On every input sequence \<open>decrypt\<close> computes what the specification words: the
  unreduced integer sum of the products of the first \<open>key_size\<close> mask entries with the
  secret key, then the floor quotient by \<open>scale\<close> of the residue of
  \<open>message_part - dot\<close> modulo \<open>q\<close>, normalised into \<open>[0, q)\<close> also when the difference is
  negative. (The empty sequence has no message part: \<open>ciphertext[-1]\<close> raises.)
\<close>

theorem decrypt_refines_spec:
  assumes "self st = self (SimpleFHE_init R ks sd g out)"
  shows "fst (decrypt st cs) =
           (if cs = [] then Inl IndexError else Inr (decrypt_spec (self st) cs))"
  by (simp add: decrypt_constructed [OF assms] decrypt_spec_constructed [OF assms])

theorem decrypt_refines_spec_witness:
  "fst (decrypt (SimpleFHE_init (replay cpython_draws) 8 42 [] [])
          [0, 0, 5, 0, 0, 0, 0, 0, 4]) = Inr 1
   \<and> 4 - dot_product [0, 0, 5, 0, 0, 0, 0, 0]
            (secret_key (self (SimpleFHE_init (replay cpython_draws) 8 42 [] []))) = - 1"
proof -
  let ?st = "SimpleFHE_init (replay cpython_draws) 8 42 [] []"
  have "fst (decrypt ?st [0, 0, 5, 0, 0, 0, 0, 0, 4]) =
        (if [0, 0, 5, 0, 0, 0, 0, 0, 4 :: int] = [] then Inl IndexError
         else Inr (decrypt_spec (self ?st) [0, 0, 5, 0, 0, 0, 0, 0, 4]))"
    by (rule decrypt_refines_spec [OF refl])
  moreover have "decrypt_spec (self ?st) [0, 0, 5, 0, 0, 0, 0, 0, 4] = 1" by code_simp
  moreover have "4 - dot_product [0, 0, 5, 0, 0, 0, 0, 0] (secret_key (self ?st)) = - 1"
    by code_simp
  ultimately show ?thesis by simp
qed

subsection \<open>Input checks\<close>

text \<open>
  C6. For every message other than 0 and 1, \<open>encrypt\<close> fails with the \<open>ValueError\<close> of
  the input check, returns no ciphertext and leaves the whole state as it was (the
  engine, the random stream, and nothing printed); for the messages 0 and 1 it raises
  no error, and leaves the engine and the random stream as they were.
\<close>

theorem encrypt_input_check:
  assumes "self st = self (SimpleFHE_init R ks sd g out)"
  shows "if m \<in> {0, 1}
         then (\<exists>ct. fst (encrypt st m) = Inr ct)
              \<and> self (snd (encrypt st m)) = self st \<and> rng (snd (encrypt st m)) = rng st
         else encrypt st m = (Inl (ValueError ''Message must be a single bit (0 or 1)''), st)"
  using encrypt_constructed [OF assms, of m] encrypt_invalid [of m st] encrypt_keeps [of st m]
  by auto

theorem encrypt_input_check_witness:
  "(\<exists>ct. fst (encrypt (SimpleFHE_init (replay cpython_draws) 8 42 [] []) 1) = Inr ct)
   \<and> encrypt (SimpleFHE_init (replay cpython_draws) 8 42 [] []) 2 =
       (Inl (ValueError ''Message must be a single bit (0 or 1)''),
        SimpleFHE_init (replay cpython_draws) 8 42 [] [])"
  using encrypt_input_check [of "SimpleFHE_init (replay cpython_draws) 8 42 [] []"
          "replay cpython_draws" 8 42 "[]" "[]" 1]
        encrypt_input_check [of "SimpleFHE_init (replay cpython_draws) 8 42 [] []"
          "replay cpython_draws" 8 42 "[]" "[]" 2]
  by simp

text \<open>
  C7. Claim: \<open>add(c1, c2)\<close> and \<open>multiply(c1, c2)\<close> fail with the length-mismatch error
  exactly when the lengths differ, and with equal lengths no error is raised and a full
  result is returned. Two empty sequences have equal lengths and still fail: the loop
  is empty and \<open>ciphertext1[-1]\<close> raises \<open>IndexError\<close>. Amended: both fail with the
  length-mismatch \<open>ValueError\<close> exactly when the lengths differ, and both return a
  result, of the inputs' length, exactly when the lengths are equal and not zero;
  neither changes the state.
\<close>

theorem add_multiply_length_check:
  assumes "self st = self (SimpleFHE_init R ks sd g out)"
  shows "((fst (add st c1 c2) = Inl (ValueError ''Ciphertexts must be the same length''))
            = (length c1 \<noteq> length c2))
       \<and> ((fst (multiply st c1 c2) = Inl (ValueError ''Ciphertexts must be the same length''))
            = (length c1 \<noteq> length c2))
       \<and> ((\<exists>r. fst (add st c1 c2) = Inr r \<and> length r = length c1)
            = (length c1 = length c2 \<and> c1 \<noteq> []))
       \<and> ((\<exists>r. fst (multiply st c1 c2) = Inr r \<and> length r = length c1)
            = (length c1 = length c2 \<and> c1 \<noteq> []))
       \<and> snd (add st c1 c2) = st \<and> snd (multiply st c1 c2) = st"
proof -
  have "c1 \<noteq> [] \<Longrightarrow> length c1 = length c2 \<Longrightarrow> Suc (length c2 - Suc 0) = length c2"
    by (cases c1) auto
  then show ?thesis
    by (simp add: add_constructed [OF assms] multiply_constructed [OF assms])
qed

theorem add_multiply_length_check_witness:
  "(\<exists>r. fst (add (SimpleFHE_init (replay cpython_draws) 8 42 [] []) [1, 0] [1, 4]) = Inr r
        \<and> length r = length [1, 0 :: int])
   \<and> fst (add (SimpleFHE_init (replay cpython_draws) 8 42 [] []) [1, 0] [1, 4, 0])
       = Inl (ValueError ''Ciphertexts must be the same length'')"
  using add_multiply_length_check [of "SimpleFHE_init (replay cpython_draws) 8 42 [] []"
          "replay cpython_draws" 8 42 "[]" "[]" "[1, 0]" "[1, 4]"]
        add_multiply_length_check [of "SimpleFHE_init (replay cpython_draws) 8 42 [] []"
          "replay cpython_draws" 8 42 "[]" "[]" "[1, 0]" "[1, 4, 0]"]
  by simp

text \<open>Two empty sequences: equal lengths, and an \<open>IndexError\<close> from both operations.\<close>

theorem add_multiply_empty_counterexample:
  "length ([] :: int list) = length ([] :: int list)
   \<and> fst (add (SimpleFHE_init (replay cpython_draws) 8 42 [] []) [] []) = Inl IndexError
   \<and> fst (multiply (SimpleFHE_init (replay cpython_draws) 8 42 [] []) [] []) = Inl IndexError"
  by code_simp

subsection \<open>Shape of ciphertexts, determinism\<close>

text \<open>
  C8. On an engine of key size \<open>ks \<ge> 0\<close>, every ciphertext that \<open>encrypt\<close> returns has
  length \<open>key_size + 1\<close> and entries in \<open>[0, q)\<close>; every result that \<open>add\<close> or \<open>multiply\<close>
  returns has the length of its two inputs and entries in \<open>[0, q)\<close>.
\<close>

theorem ciphertext_shape:
  assumes c: "self st = self (SimpleFHE_init R ks sd g out)" and k: "0 \<le> ks"
    and e: "fst (encrypt st b) = Inr ct"
    and a: "fst (add st c1 c2) = Inr r1"
    and m: "fst (multiply st c1 c2) = Inr r2"
  shows "int (length ct) = key_size (self st) + 1
       \<and> list_all (\<lambda>x. 0 \<le> x \<and> x < q (self st)) ct
       \<and> length r1 = length c1 \<and> length r1 = length c2
       \<and> list_all (\<lambda>x. 0 \<le> x \<and> x < q (self st)) r1
       \<and> length r2 = length c1 \<and> length r2 = length c2
       \<and> list_all (\<lambda>x. 0 \<le> x \<and> x < q (self st)) r2"
proof -
  note f = constructed_fields [OF c]
  have b: "b \<in> {0, 1}"
  proof (rule ccontr)
    assume "b \<notin> {0, 1}"
    then show False using e encrypt_invalid [of b st] by simp
  qed
  have ct: "ct = map (\<lambda>x. x mod 8) (public_key (self st)) @ [(b * 4) mod 8]"
    using encrypt_constructed [OF c b] e by simp
  have l: "length c1 = length c2" "c1 \<noteq> []"
    using a by (auto simp add: add_constructed [OF c] split: if_splits)
  then have l2: "c2 \<noteq> []" by auto
  have r1: "r1 = map (\<lambda>(a, b). (a + b) mod 8) (zip (butlast c1) (butlast c2))
                @ [(last c1 + last c2) mod 8]"
    using a l by (simp add: add_constructed [OF c])
  have r2: "r2 = map (\<lambda>(a, b). (a * b) mod 8) (zip (butlast c1) (butlast c2))
                @ [(last c1 div 4 * (last c2 div 4) * 4) mod 8]"
    using m l by (simp add: multiply_constructed [OF c])
  have "int (length ct) = key_size (self st) + 1" using k by (simp add: ct f)
  moreover have "list_all (\<lambda>x. 0 \<le> x \<and> x < q (self st)) ct"
    by (simp add: ct f list_all_iff)
  moreover have "length r1 = length c1" "length r1 = length c2"
    using l l2 by (simp_all add: r1)
  moreover have "list_all (\<lambda>x. 0 \<le> x \<and> x < q (self st)) r1"
    by (auto simp add: r1 f list_all_iff)
  moreover have "length r2 = length c1" "length r2 = length c2"
    using l l2 by (simp_all add: r2)
  moreover have "list_all (\<lambda>x. 0 \<le> x \<and> x < q (self st)) r2"
    by (auto simp add: r2 f list_all_iff)
  ultimately show ?thesis by simp
qed

theorem ciphertext_shape_witness:
  "(0 :: int) \<le> 8
   \<and> fst (encrypt (SimpleFHE_init (replay cpython_draws) 8 42 [] []) 1)
       = Inr [1, 0, 0, 0, 0, 0, 0, 0, 4]
   \<and> fst (add (SimpleFHE_init (replay cpython_draws) 8 42 [] []) [1, 7] [1, 4]) = Inr [2, 3]
   \<and> fst (multiply (SimpleFHE_init (replay cpython_draws) 8 42 [] []) [1, 7] [1, 4]) = Inr [1, 4]
   \<and> int (length [1, 0, 0, 0, 0, 0, 0, 0, 4 :: int]) = 8 + 1
   \<and> length [2, 3 :: int] = length [1, 7 :: int]
   \<and> length [1, 4 :: int] = length [1, 7 :: int]
   \<and> list_all (\<lambda>x. 0 \<le> x \<and> x < 8) [1, 0, 0, 0, 0, 0, 0, 0, 4 :: int]
   \<and> list_all (\<lambda>x. 0 \<le> x \<and> x < 8) [2, 3 :: int]
   \<and> list_all (\<lambda>x. 0 \<le> x \<and> x < 8) [1, 4 :: int]"
proof -
  let ?st = "SimpleFHE_init (replay cpython_draws) 8 42 [] []"
  have k: "(0 :: int) \<le> 8" by simp
  have e: "fst (encrypt ?st 1) = Inr [1, 0, 0, 0, 0, 0, 0, 0, 4]" by code_simp
  have a: "fst (add ?st [1, 7] [1, 4]) = Inr [2, 3]" by code_simp
  have m: "fst (multiply ?st [1, 7] [1, 4]) = Inr [1, 4]" by code_simp
  have f: "key_size (self ?st) = 8" "q (self ?st) = 8"
    by (simp_all add: self_SimpleFHE_init)
  show ?thesis
    using ciphertext_shape [OF refl k e a m] k e a m by (simp add: f)
qed

text \<open>
  C9. Two engines constructed with the same seed and the same key size, in whatever
  state the process's generator and output were before each construction, have the same
  secret key and the same public key, and \<open>encrypt\<close> returns the same ciphertext on both.
\<close>

theorem construction_deterministic:
  "secret_key (self (SimpleFHE_init R ks sd g1 out1))
     = secret_key (self (SimpleFHE_init R ks sd g2 out2))
   \<and> public_key (self (SimpleFHE_init R ks sd g1 out1))
     = public_key (self (SimpleFHE_init R ks sd g2 out2))
   \<and> fst (encrypt (SimpleFHE_init R ks sd g1 out1) b)
     = fst (encrypt (SimpleFHE_init R ks sd g2 out2) b)"
proof -
  have s: "self (SimpleFHE_init R ks sd g1 out1) = self (SimpleFHE_init R ks sd g2 out2)"
    by (simp add: self_SimpleFHE_init)
  have "fst (encrypt (SimpleFHE_init R ks sd g1 out1) b)
      = fst (encrypt (SimpleFHE_init R ks sd g2 out2) b)"
    by (simp add: encrypt_def s Let_def split: sum.splits)
  then show ?thesis using s by simp
qed

end
